theory Spec2Isabelle
  imports Complex_Main
begin

section \<open>The Pomodoro timer component\<close>

text \<open>
  The component \<open>PomodoroTimer\<close> keeps five state variables (React \<open>useState\<close> hooks) and
  changes them only through their setters. A setter call does not write the variable at
  once: it enqueues an update, and the updates of one event are applied, in the order in
  which they were enqueued, before the next event is handled. The model keeps that
  reading: every handler of the source is the list of setter calls it issues, in source
  order, and \<open>render\<close> applies such a list to the state.

  Numbers of the source are JavaScript numbers. The time left and the session counters
  only ever hold integers far below \<open>2^53\<close>, so they are modelled as \<open>int\<close>; the progress
  percentage is a quotient and is modelled over \<open>real\<close>.
\<close>

subsection \<open>Data\<close>

datatype TimerMode = work | shortBreak | longBreak

definition WORK_DURATION :: int where
  "WORK_DURATION = 25 * 60"

definition SHORT_BREAK_DURATION :: int where
  "SHORT_BREAK_DURATION = 5 * 60"

definition LONG_BREAK_DURATION :: int where
  "LONG_BREAK_DURATION = 15 * 60"

record PomodoroTimer =
  timeLeft :: int
  isRunning :: bool
  mode :: TimerMode
  completedSessions :: int
  totalSessions :: int

text \<open>The values passed to \<open>useState\<close> when the component is mounted.\<close>

definition initialState :: PomodoroTimer where
  "initialState =
     \<lparr>timeLeft = WORK_DURATION, isRunning = False, mode = work,
      completedSessions = 0, totalSessions = 0\<rparr>"

subsection \<open>Setter calls and rendering\<close>

datatype update =
    SetTimeLeft int
  | SetIsRunning bool
  | SetMode TimerMode
  | SetCompletedSessions int
  | SetTotalSessions int

fun apply_update :: "PomodoroTimer \<Rightarrow> update \<Rightarrow> PomodoroTimer" where
  "apply_update s (SetTimeLeft v) = s\<lparr>timeLeft := v\<rparr>"
| "apply_update s (SetIsRunning b) = s\<lparr>isRunning := b\<rparr>"
| "apply_update s (SetMode m) = s\<lparr>mode := m\<rparr>"
| "apply_update s (SetCompletedSessions n) = s\<lparr>completedSessions := n\<rparr>"
| "apply_update s (SetTotalSessions n) = s\<lparr>totalSessions := n\<rparr>"

definition render :: "update list \<Rightarrow> PomodoroTimer \<Rightarrow> PomodoroTimer" where
  "render us s = foldl apply_update s us"

subsection \<open>The notification sound\<close>

text \<open>
  \<open>playNotificationSound\<close> constructs an audio context and drives an oscillator. Nothing
  in it is guarded by \<open>try\<close>/\<open>catch\<close>: when the browser offers no audio context, or
  refuses to build one, the constructor call throws and the exception leaves the
  function. Whether the audio output works is a property of the environment, taken here
  as a parameter.
\<close>

datatype audioOutput = Available | Unavailable

datatype error = AudioError

definition playNotificationSound :: "audioOutput \<Rightarrow> error + unit" where
  "playNotificationSound audio =
     (case audio of Available \<Rightarrow> Inr () | Unavailable \<Rightarrow> Inl AudioError)"

subsection \<open>The completion handler\<close>

text \<open>
  What a call of a handler does besides returning: the setter calls it has issued, in
  order, and the number of notification sounds it has played.
\<close>

record effects =
  queued :: "update list"
  sounds :: nat

definition no_effects :: effects where
  "no_effects = \<lparr>queued = [], sounds = 0\<rparr>"

text \<open>
  \<open>handleTimerComplete\<close> reads \<open>mode\<close> and \<open>completedSessions\<close> from the render it was
  created in; both are dependencies of its \<open>useCallback\<close> and of the effect that installs
  the interval, so they are the values of the current state. It calls
  \<open>setIsRunning(false)\<close>, then \<open>playNotificationSound()\<close>, then the setters of the branch
  taken. An exception of the sound leaves the handler before any of the later setters is
  reached. The test \<open>newCompleted % 4 === 0\<close> is divisibility by four, on which
  JavaScript's remainder and \<open>mod\<close> agree for every integer.
\<close>

definition handleTimerComplete :: "audioOutput \<Rightarrow> PomodoroTimer \<Rightarrow> error + effects" where
  "handleTimerComplete audio s =
     (case playNotificationSound audio of
        Inl e \<Rightarrow> Inl e
      | Inr _ \<Rightarrow>
          Inr \<lparr>queued =
                 SetIsRunning False #
                 (if mode s = work then
                    (let newCompleted = completedSessions s + 1 in
                       [SetCompletedSessions newCompleted, SetTotalSessions newCompleted] @
                       (if newCompleted mod 4 = 0
                        then [SetMode longBreak, SetTimeLeft LONG_BREAK_DURATION]
                        else [SetMode shortBreak, SetTimeLeft SHORT_BREAK_DURATION]))
                  else [SetMode work, SetTimeLeft WORK_DURATION]),
               sounds = 1\<rparr>)"

subsection \<open>The tick\<close>

text \<open>
  The function handed to \<open>setTimeLeft\<close> by the interval callback: it receives the
  current time left and returns the new one, calling the completion handler on the way
  when the time left is at most one.
\<close>

definition tickUpdater :: "audioOutput \<Rightarrow> PomodoroTimer \<Rightarrow> int \<Rightarrow> error + (int \<times> effects)" where
  "tickUpdater audio s prev =
     (if prev \<le> 1 then
        (case handleTimerComplete audio s of
           Inl e \<Rightarrow> Inl e
         | Inr fx \<Rightarrow> Inr (0, fx))
      else Inr (prev - 1, no_effects))"

text \<open>
  One firing of the interval. The interval exists only while \<open>isRunning\<close> holds (the
  effect clears it otherwise), so a firing in a stopped state does nothing. The updater
  was enqueued before the setters that the handler issues while the updater runs, so
  its result is applied first and the handler's updates after it. The second component
  of the result counts the notification sounds played.
\<close>

definition tick :: "audioOutput \<Rightarrow> PomodoroTimer \<Rightarrow> error + (PomodoroTimer \<times> nat)" where
  "tick audio s =
     (if isRunning s then
        (case tickUpdater audio s (timeLeft s) of
           Inl e \<Rightarrow> Inl e
         | Inr (v, fx) \<Rightarrow> Inr (render (SetTimeLeft v # queued fx) s, sounds fx))
      else Inr (s, 0))"

subsection \<open>The controls\<close>

definition toggleTimer :: "PomodoroTimer \<Rightarrow> update list" where
  "toggleTimer s = [SetIsRunning (\<not> isRunning s)]"

definition resetTimer :: "PomodoroTimer \<Rightarrow> update list" where
  "resetTimer s =
     SetIsRunning False #
     (if mode s = work then [SetTimeLeft WORK_DURATION]
      else if mode s = shortBreak then [SetTimeLeft SHORT_BREAK_DURATION]
      else [SetTimeLeft LONG_BREAK_DURATION])"

definition switchMode :: "TimerMode \<Rightarrow> update list" where
  "switchMode newMode =
     [SetIsRunning False, SetMode newMode] @
     (if newMode = work then [SetTimeLeft WORK_DURATION]
      else if newMode = shortBreak then [SetTimeLeft SHORT_BREAK_DURATION]
      else [SetTimeLeft LONG_BREAK_DURATION])"

subsection \<open>Derived values\<close>

definition getProgress :: "PomodoroTimer \<Rightarrow> real" where
  "getProgress s =
     (let totalDuration = WORK_DURATION;
          totalDuration = (if mode s = shortBreak then SHORT_BREAK_DURATION else totalDuration);
          totalDuration = (if mode s = longBreak then LONG_BREAK_DURATION else totalDuration)
      in ((of_int totalDuration - of_int (timeLeft s)) / of_int totalDuration) * 100)"

text \<open>The fixed duration of a mode, as the data model of the specification names it.\<close>

fun duration :: "TimerMode \<Rightarrow> int" where
  "duration work = WORK_DURATION"
| "duration shortBreak = SHORT_BREAK_DURATION"
| "duration longBreak = LONG_BREAK_DURATION"

subsection \<open>Events and runs\<close>

datatype event = Tick | ToggleTimer | ResetTimer | SwitchMode TimerMode

fun step :: "audioOutput \<Rightarrow> PomodoroTimer \<Rightarrow> event \<Rightarrow> error + PomodoroTimer" where
  "step audio s Tick = (case tick audio s of Inl e \<Rightarrow> Inl e | Inr (s', n) \<Rightarrow> Inr s')"
| "step audio s ToggleTimer = Inr (render (toggleTimer s) s)"
| "step audio s ResetTimer = Inr (render (resetTimer s) s)"
| "step audio s (SwitchMode newMode) = Inr (render (switchMode newMode) s)"

text \<open>
  A run handles the events one after the other, starting from a given state; an
  uncaught exception ends it.
\<close>

definition run :: "audioOutput \<Rightarrow> event list \<Rightarrow> PomodoroTimer \<Rightarrow> error + PomodoroTimer" where
  "run audio es s =
     foldl (\<lambda>r e. case r of Inl err \<Rightarrow> Inl err | Inr t \<Rightarrow> step audio t e) (Inr s) es"

subsection \<open>Invariants of a run\<close>

text \<open>
  The time left stays between one second and the duration of the current mode, and the
  two session counters stay equal.
\<close>

definition within_duration :: "PomodoroTimer \<Rightarrow> bool" where
  "within_duration s = (1 \<le> timeLeft s \<and> timeLeft s \<le> duration (mode s))"

definition counters_agree :: "PomodoroTimer \<Rightarrow> bool" where
  "counters_agree s = (totalSessions s = completedSessions s)"

section \<open>Properties\<close>

subsection \<open>Auxiliary facts\<close>

lemmas durations = WORK_DURATION_def SHORT_BREAK_DURATION_def LONG_BREAK_DURATION_def

lemma tick_running_above_one:
  "isRunning s \<Longrightarrow> 1 < timeLeft s \<Longrightarrow>
   tick audio s = Inr (s\<lparr>timeLeft := timeLeft s - 1\<rparr>, 0)"
  by (simp add: tick_def tickUpdater_def no_effects_def render_def)

lemma tick_stopped: "\<not> isRunning s \<Longrightarrow> tick audio s = Inr (s, 0)"
  by (simp add: tick_def)

lemma handler_available:
  "handleTimerComplete Available s =
     Inr \<lparr>queued =
            SetIsRunning False #
            (if mode s = work then
               [SetCompletedSessions (completedSessions s + 1),
                SetTotalSessions (completedSessions s + 1),
                SetMode (if (completedSessions s + 1) mod 4 = 0 then longBreak else shortBreak),
                SetTimeLeft (if (completedSessions s + 1) mod 4 = 0 then 900 else 300)]
             else [SetMode work, SetTimeLeft 1500]),
          sounds = 1\<rparr>"
  by (simp add: handleTimerComplete_def playNotificationSound_def Let_def durations)

lemma handler_unavailable: "handleTimerComplete Unavailable s = Inl AudioError"
  by (simp add: handleTimerComplete_def playNotificationSound_def)

lemma tick_completes:
  assumes "isRunning s" and "timeLeft s \<le> 1"
  shows "tick Available s =
     Inr (if mode s = work then
            s\<lparr>timeLeft := (if (completedSessions s + 1) mod 4 = 0 then 900 else 300),
              isRunning := False,
              mode := (if (completedSessions s + 1) mod 4 = 0 then longBreak else shortBreak),
              completedSessions := completedSessions s + 1,
              totalSessions := completedSessions s + 1\<rparr>
          else s\<lparr>timeLeft := 1500, isRunning := False, mode := work\<rparr>, 1)"
  using assms by (simp add: tick_def tickUpdater_def handler_available render_def)

lemma tick_unavailable:
  "isRunning s \<Longrightarrow> timeLeft s \<le> 1 \<Longrightarrow> tick Unavailable s = Inl AudioError"
  by (simp add: tick_def tickUpdater_def handler_unavailable)

lemma render_toggle: "render (toggleTimer s) s = s\<lparr>isRunning := \<not> isRunning s\<rparr>"
  by (simp add: render_def toggleTimer_def)

lemma render_reset:
  "render (resetTimer s) s = s\<lparr>isRunning := False, timeLeft := duration (mode s)\<rparr>"
  by (cases "mode s") (simp_all add: render_def resetTimer_def)

lemma render_switch:
  "render (switchMode m) s = s\<lparr>isRunning := False, mode := m, timeLeft := duration m\<rparr>"
  by (cases m) (simp_all add: render_def switchMode_def)

lemma run_Nil: "run audio [] s = Inr s"
  by (simp add: run_def)

lemma run_snoc:
  "run audio (es @ [e]) s =
     (case run audio es s of Inl err \<Rightarrow> Inl err | Inr t \<Rightarrow> step audio t e)"
  by (simp add: run_def)

lemma run_Cons:
  "run audio (e # es) s =
     (case step audio s e of Inl err \<Rightarrow> Inl err | Inr t \<Rightarrow> run audio es t)"
proof (induction es rule: rev_induct)
  case Nil
  show ?case by (simp add: run_def split: sum.split)
next
  case (snoc x xs)
  have "run audio (e # xs @ [x]) s = run audio ((e # xs) @ [x]) s" by simp
  also have "\<dots> = (case run audio (e # xs) s of Inl err \<Rightarrow> Inl err | Inr t \<Rightarrow> step audio t x)"
    by (rule run_snoc)
  finally show ?case
    by (simp add: snoc.IH run_snoc split: sum.split)
qed

text \<open>The step of an event, case by case on whether it is a completing tick.\<close>

lemma step_cases:
  assumes "step audio s e = Inr s'"
  shows "(e = Tick \<and> \<not> isRunning s \<and> s' = s)
       \<or> (e = Tick \<and> isRunning s \<and> 1 < timeLeft s \<and> s' = s\<lparr>timeLeft := timeLeft s - 1\<rparr>)
       \<or> (e = Tick \<and> isRunning s \<and> timeLeft s \<le> 1 \<and> audio = Available
            \<and> tick Available s = Inr (s', 1))
       \<or> (e = ToggleTimer \<and> s' = s\<lparr>isRunning := \<not> isRunning s\<rparr>)
       \<or> (e = ResetTimer \<and> s' = s\<lparr>isRunning := False, timeLeft := duration (mode s)\<rparr>)
       \<or> (\<exists>m. e = SwitchMode m \<and> s' = s\<lparr>isRunning := False, mode := m, timeLeft := duration m\<rparr>)"
proof (cases e)
  case Tick
  show ?thesis
  proof (cases "isRunning s")
    case False
    with Tick assms show ?thesis by (simp add: tick_stopped)
  next
    case True
    show ?thesis
    proof (cases "1 < timeLeft s")
      case True
      with Tick assms \<open>isRunning s\<close> show ?thesis by (simp add: tick_running_above_one)
    next
      case False
      then have le: "timeLeft s \<le> 1" by simp
      show ?thesis
      proof (cases audio)
        case Available
        with Tick assms True le show ?thesis
          by (auto simp add: tick_completes split: if_splits)
      next
        case Unavailable
        with Tick assms True le show ?thesis by (simp add: tick_unavailable)
      qed
    qed
  qed
next
  case ToggleTimer
  with assms show ?thesis by (auto simp add: render_toggle)
next
  case ResetTimer
  with assms show ?thesis by (auto simp add: render_reset)
next
  case (SwitchMode m)
  with assms show ?thesis by (auto simp add: render_switch)
qed

lemma duration_values:
  "duration m = (case m of work \<Rightarrow> 1500 | shortBreak \<Rightarrow> 300 | longBreak \<Rightarrow> 900)"
  by (cases m) (simp_all add: durations)

lemma duration_pos: "1 \<le> duration m"
  by (cases m) (simp_all add: durations)

lemma within_duration_step:
  assumes "within_duration s" and "step audio s e = Inr s'"
  shows "within_duration s'"
proof -
  from step_cases [OF assms(2)] consider
      (same) "timeLeft s' = timeLeft s" "mode s' = mode s"
    | (less) "1 < timeLeft s" "timeLeft s' = timeLeft s - 1" "mode s' = mode s"
    | (full) "timeLeft s' = duration (mode s')"
    by (auto simp add: tick_completes durations split: if_splits)
  then show ?thesis
  proof cases
    case same
    with assms(1) show ?thesis by (simp add: within_duration_def)
  next
    case less
    with assms(1) show ?thesis by (simp add: within_duration_def)
  next
    case full
    then show ?thesis by (simp add: within_duration_def duration_pos)
  qed
qed

lemma within_duration_run:
  "within_duration s \<Longrightarrow> run audio es s = Inr s' \<Longrightarrow> within_duration s'"
proof (induction es arbitrary: s' rule: rev_induct)
  case Nil
  then show ?case by (simp add: run_Nil)
next
  case (snoc e es)
  from snoc.prems(2) obtain t where t: "run audio es s = Inr t" and e: "step audio t e = Inr s'"
    by (auto simp add: run_snoc split: sum.splits)
  from snoc.IH [OF snoc.prems(1) t] e show ?case by (rule within_duration_step)
qed

lemma within_duration_initial: "within_duration initialState"
  by (simp add: within_duration_def initialState_def durations)

lemma counters_step:
  assumes "step audio s e = Inr s'"
  shows "if e = Tick \<and> isRunning s \<and> timeLeft s \<le> 1 \<and> mode s = work
         then completedSessions s' = completedSessions s + 1 \<and>
              totalSessions s' = completedSessions s + 1
         else completedSessions s' = completedSessions s \<and>
              totalSessions s' = totalSessions s"
  using step_cases [OF assms]
  by (auto simp add: tick_completes split: if_splits)

lemma counters_agree_run:
  "counters_agree s \<Longrightarrow> run audio es s = Inr s' \<Longrightarrow> counters_agree s'"
proof (induction es arbitrary: s' rule: rev_induct)
  case Nil
  then show ?case by (simp add: run_Nil)
next
  case (snoc e es)
  from snoc.prems(2) obtain t where t: "run audio es s = Inr t" and e: "step audio t e = Inr s'"
    by (auto simp add: run_snoc split: sum.splits)
  from snoc.IH [OF snoc.prems(1) t] have "counters_agree t" .
  with counters_step [OF e] show ?case
    by (auto simp add: counters_agree_def split: if_splits)
qed

text \<open>A running countdown: \<open>n\<close> ticks take \<open>n\<close> seconds off while more than \<open>n\<close> are left.\<close>

lemma run_append:
  "run audio (es @ fs) s =
     (case run audio es s of Inl err \<Rightarrow> Inl err | Inr t \<Rightarrow> run audio fs t)"
proof (induction es arbitrary: s)
  case Nil
  show ?case by (simp add: run_Nil)
next
  case (Cons e es)
  show ?case by (simp add: run_Cons Cons.IH split: sum.split)
qed

lemma countdown:
  "isRunning s \<Longrightarrow> int n < timeLeft s \<Longrightarrow>
   run audio (replicate n Tick) s = Inr (s\<lparr>timeLeft := timeLeft s - int n\<rparr>)"
proof (induction n arbitrary: s)
  case 0
  show ?case by (simp add: run_Nil)
next
  case (Suc n)
  from Suc.prems have "1 < timeLeft s" by simp
  with Suc.prems(1) have "step audio s Tick = Inr (s\<lparr>timeLeft := timeLeft s - 1\<rparr>)"
    by (simp add: tick_running_above_one)
  moreover have "run audio (replicate n Tick) (s\<lparr>timeLeft := timeLeft s - 1\<rparr>) =
      Inr (s\<lparr>timeLeft := timeLeft s - 1 - int n\<rparr>)"
    using Suc.IH [of "s\<lparr>timeLeft := timeLeft s - 1\<rparr>"] Suc.prems by simp
  ultimately show ?case
    by (simp add: run_Cons algebra_simps)
qed

lemma first_work_session:
  "run Available (ToggleTimer # replicate 1499 Tick @ [Tick]) initialState =
     Inr \<lparr>timeLeft = 300, isRunning = False, mode = shortBreak,
          completedSessions = 1, totalSessions = 1\<rparr>"
proof -
  let ?s = "\<lparr>timeLeft = 1500, isRunning = True, mode = work,
            completedSessions = 0, totalSessions = 0\<rparr>"
  have "run Available (replicate 1499 Tick) ?s = Inr (?s\<lparr>timeLeft := timeLeft ?s - int 1499\<rparr>)"
    by (rule countdown) simp_all
  then have "run Available (replicate 1499 Tick) ?s = Inr (?s\<lparr>timeLeft := 1\<rparr>)"
    by simp
  then show ?thesis
    by (simp add: run_Cons run_append run_Nil initialState_def render_toggle durations
        tick_completes)
qed

subsection \<open>The completion transition\<close>

text \<open>
  Claim C1. In a running state whose time left is at most one, the tick that brings the
  countdown to zero completes the interval. With a working audio output the tick ends in
  a stopped state and has played the notification sound exactly once. From work mode
  the session count grows by one, and the next mode is the long break with 900 seconds
  when the new count is divisible by four, the short break with 300 seconds otherwise.
  From either break the next mode is work with 1500 seconds and the session count is
  unchanged.
\<close>

theorem completion_transition:
  assumes "isRunning s" and "timeLeft s \<le> 1"
  shows "\<exists>s'. tick Available s = Inr (s', 1) \<and> \<not> isRunning s' \<and>
     (if mode s = work then
        completedSessions s' = completedSessions s + 1 \<and>
        (if (completedSessions s + 1) mod 4 = 0
         then mode s' = longBreak \<and> timeLeft s' = 900
         else mode s' = shortBreak \<and> timeLeft s' = 300)
      else mode s' = work \<and> timeLeft s' = 1500 \<and>
           completedSessions s' = completedSessions s)"
  using assms by (simp add: tick_completes)

theorem completion_transition_witness:
  "(\<exists>s'. tick Available
            \<lparr>timeLeft = 1, isRunning = True, mode = work,
             completedSessions = 0, totalSessions = 0\<rparr> = Inr (s', 1) \<and>
         \<not> isRunning s' \<and> completedSessions s' = 1 \<and>
         mode s' = shortBreak \<and> timeLeft s' = 300) \<and>
   (\<exists>s'. tick Available
            \<lparr>timeLeft = 1, isRunning = True, mode = work,
             completedSessions = 3, totalSessions = 3\<rparr> = Inr (s', 1) \<and>
         \<not> isRunning s' \<and> completedSessions s' = 4 \<and>
         mode s' = longBreak \<and> timeLeft s' = 900) \<and>
   (\<exists>s'. tick Available
            \<lparr>timeLeft = 1, isRunning = True, mode = longBreak,
             completedSessions = 4, totalSessions = 4\<rparr> = Inr (s', 1) \<and>
         \<not> isRunning s' \<and> mode s' = work \<and> timeLeft s' = 1500 \<and>
         completedSessions s' = 4)"
  using
    completion_transition [of "\<lparr>timeLeft = 1, isRunning = True, mode = work,
      completedSessions = 0, totalSessions = 0\<rparr>"]
    completion_transition [of "\<lparr>timeLeft = 1, isRunning = True, mode = work,
      completedSessions = 3, totalSessions = 3\<rparr>"]
    completion_transition [of "\<lparr>timeLeft = 1, isRunning = True, mode = longBreak,
      completedSessions = 4, totalSessions = 4\<rparr>"]
  by simp

subsection \<open>A failing notification sound\<close>

text \<open>
  Claim C2, as stated: a completion ends in the same state whether or not the
  notification sound succeeds. It fails: the exception of the sound is not caught, so the
  completing tick ends with the error where the same tick with a working audio output
  ends in the next interval.
\<close>

theorem sound_failure_counterexample:
  "tick Unavailable
     \<lparr>timeLeft = 1, isRunning = True, mode = work,
      completedSessions = 0, totalSessions = 0\<rparr> = Inl AudioError \<and>
   tick Available
     \<lparr>timeLeft = 1, isRunning = True, mode = work,
      completedSessions = 0, totalSessions = 0\<rparr> =
     Inr (\<lparr>timeLeft = 300, isRunning = False, mode = shortBreak,
           completedSessions = 1, totalSessions = 1\<rparr>, 1)"
  by (simp add: tick_unavailable tick_completes)

text \<open>
  Claim C2, amended. A failure of the notification sound is not caught: it leaves the
  completion handler, and with it the completing tick, as an exception, and the
  transition to the next interval does not take place. A tick that does not complete an
  interval plays no sound and is the same with and without a working audio output.
\<close>

theorem sound_failure_propagates:
  "handleTimerComplete Unavailable s = Inl AudioError \<and>
   tick Unavailable s =
     (if isRunning s \<and> timeLeft s \<le> 1 then Inl AudioError else tick Available s)"
proof -
  have "tick Unavailable s = tick Available s" if "\<not> (isRunning s \<and> timeLeft s \<le> 1)"
  proof (cases "isRunning s")
    case True
    with that have "1 < timeLeft s" by simp
    with True show ?thesis by (simp add: tick_running_above_one)
  next
    case False
    then show ?thesis by (simp add: tick_stopped)
  qed
  then show ?thesis by (simp add: handler_unavailable tick_unavailable)
qed

subsection \<open>The tick\<close>

text \<open>
  Claim C3, as stated, has the tick at one second set the time left to 0, and no tick
  change the time left by anything but one second. It fails: 0 is only the value the
  updater returns, and the completion handler's own \<open>setTimeLeft\<close>, enqueued while the
  updater runs, is applied after it. The tick at the last second of a short break leaves
  1500 seconds, the duration of the work interval that follows.
\<close>

theorem tick_leaves_zero_counterexample:
  "tick Available
     \<lparr>timeLeft = 1, isRunning = True, mode = shortBreak,
      completedSessions = 1, totalSessions = 1\<rparr> =
     Inr (\<lparr>timeLeft = 1500, isRunning = False, mode = work,
           completedSessions = 1, totalSessions = 1\<rparr>, 1) \<and>
   (1500::int) \<noteq> 0 \<and> (1500::int) \<noteq> 1 - 1"
  by (simp add: tick_completes)

text \<open>
  Claim C3, amended. In a running state a tick with more than one second left takes
  exactly one second off, changes nothing else and plays no sound. A tick with one
  second left (or less: the guard is \<open>prev <= 1\<close>) calls the completion handler; its
  updater returns 0, but the handler's updates are applied after that value, so with a
  working audio output the tick leaves the time left at the full duration of the next
  mode (300, 900 or 1500), the timer stopped, and one sound played; when the sound
  throws, the tick ends with that exception. No tick changes the time left in any other
  way.
\<close>

theorem tick_effect:
  assumes "isRunning s"
  shows "tick audio s =
           (if 1 < timeLeft s then Inr (s\<lparr>timeLeft := timeLeft s - 1\<rparr>, 0)
            else if audio = Unavailable then Inl AudioError
            else Inr (if mode s = work then
                        s\<lparr>timeLeft := (if (completedSessions s + 1) mod 4 = 0 then 900 else 300),
                          isRunning := False,
                          mode :=
                            (if (completedSessions s + 1) mod 4 = 0 then longBreak
                             else shortBreak),
                          completedSessions := completedSessions s + 1,
                          totalSessions := completedSessions s + 1\<rparr>
                      else s\<lparr>timeLeft := 1500, isRunning := False, mode := work\<rparr>, 1)) \<and>
         (if 1 < timeLeft s
          then tickUpdater audio s (timeLeft s) = Inr (timeLeft s - 1, no_effects)
          else \<exists>fx s'. tickUpdater Available s (timeLeft s) = Inr (0, fx) \<and> sounds fx = 1 \<and>
                 tick Available s = Inr (s', 1) \<and> timeLeft s' = duration (mode s') \<and>
                 timeLeft s' \<noteq> 0)"
proof (cases "1 < timeLeft s")
  case True
  with assms show ?thesis
    by (simp add: tick_running_above_one tickUpdater_def)
next
  case False
  then have le: "timeLeft s \<le> 1" by simp
  have u: "\<exists>fx. tickUpdater Available s (timeLeft s) = Inr (0, fx) \<and> sounds fx = 1"
    using le by (simp add: tickUpdater_def handler_available)
  show ?thesis
  proof (cases audio)
    case Available
    with assms le False u show ?thesis
      by (simp add: tick_completes durations)
  next
    case Unavailable
    with assms le False u show ?thesis
      by (simp add: tick_unavailable tick_completes durations)
  qed
qed

theorem tick_effect_witness:
  "tick Available
     \<lparr>timeLeft = 1500, isRunning = True, mode = work,
      completedSessions = 0, totalSessions = 0\<rparr> =
     Inr (\<lparr>timeLeft = 1499, isRunning = True, mode = work,
           completedSessions = 0, totalSessions = 0\<rparr>, 0) \<and>
   tick Available
     \<lparr>timeLeft = 1, isRunning = True, mode = work,
      completedSessions = 3, totalSessions = 3\<rparr> =
     Inr (\<lparr>timeLeft = 900, isRunning = False, mode = longBreak,
           completedSessions = 4, totalSessions = 4\<rparr>, 1) \<and>
   tick Unavailable
     \<lparr>timeLeft = 1, isRunning = True, mode = work,
      completedSessions = 3, totalSessions = 3\<rparr> = Inl AudioError"
  using
    tick_effect [of "\<lparr>timeLeft = 1500, isRunning = True, mode = work,
      completedSessions = 0, totalSessions = 0\<rparr>" Available]
    tick_effect [of "\<lparr>timeLeft = 1, isRunning = True, mode = work,
      completedSessions = 3, totalSessions = 3\<rparr>" Available]
    tick_effect [of "\<lparr>timeLeft = 1, isRunning = True, mode = work,
      completedSessions = 3, totalSessions = 3\<rparr>" Unavailable]
  by simp

subsection \<open>Reachable states\<close>

text \<open>
  Claim C4, as stated, says that no operation performed in a stopped state lowers the
  time left. It fails: the initial state is stopped with 1500 seconds left, and switching
  to the short break there leaves 300.
\<close>

theorem stopped_switch_counterexample:
  "run Available [] initialState = Inr initialState \<and>
   isRunning initialState = False \<and>
   timeLeft initialState = 1500 \<and>
   step Available initialState (SwitchMode shortBreak) =
     Inr \<lparr>timeLeft = 300, isRunning = False, mode = shortBreak,
          completedSessions = 0, totalSessions = 0\<rparr>"
  by (simp add: run_Nil initialState_def render_switch durations)

text \<open>
  Claim C4, amended. In every state reached from the initial state by ticks (completing
  or not), mode switches, toggles and resets, the time left lies between 0 and the
  duration of the current mode; and in such a state, when it is stopped, no tick, toggle
  or reset lowers the time left (a tick leaves the whole state as it is). Switching, in a
  stopped state, to a mode with a shorter duration does lower it.
\<close>

theorem reachable_time_bounds:
  assumes "run audio es initialState = Inr s"
  shows "0 \<le> timeLeft s \<and> timeLeft s \<le> duration (mode s) \<and>
         (\<forall>e s'. \<not> isRunning s \<and> (\<forall>m. e \<noteq> SwitchMode m) \<and> step audio s e = Inr s' \<longrightarrow>
            timeLeft s \<le> timeLeft s' \<and> (e = Tick \<longrightarrow> s' = s))"
proof -
  from within_duration_initial assms have inv: "within_duration s"
    by (rule within_duration_run)
  have "timeLeft s \<le> timeLeft s' \<and> (e = Tick \<longrightarrow> s' = s)"
    if "\<not> isRunning s" and "\<forall>m. e \<noteq> SwitchMode m" and "step audio s e = Inr s'" for e s'
    using step_cases [OF that(3)] that(1,2) inv
    by (auto simp add: within_duration_def)
  then have "\<forall>e s'. \<not> isRunning s \<and> (\<forall>m. e \<noteq> SwitchMode m) \<and> step audio s e = Inr s' \<longrightarrow>
      timeLeft s \<le> timeLeft s' \<and> (e = Tick \<longrightarrow> s' = s)"
    by blast
  moreover from inv have "0 \<le> timeLeft s" and "timeLeft s \<le> duration (mode s)"
    by (simp_all add: within_duration_def)
  ultimately show ?thesis
    by (intro conjI)
qed

theorem reachable_time_bounds_witness:
  "run Available [ToggleTimer, Tick, ToggleTimer] initialState =
     Inr \<lparr>timeLeft = 1499, isRunning = False, mode = work,
          completedSessions = 0, totalSessions = 0\<rparr> \<and>
   (0::int) \<le> 1499 \<and> 1499 \<le> duration work \<and>
   step Available
     \<lparr>timeLeft = 1499, isRunning = False, mode = work,
      completedSessions = 0, totalSessions = 0\<rparr> ResetTimer =
     Inr \<lparr>timeLeft = 1500, isRunning = False, mode = work,
          completedSessions = 0, totalSessions = 0\<rparr> \<and>
   step Available
     \<lparr>timeLeft = 1499, isRunning = False, mode = work,
      completedSessions = 0, totalSessions = 0\<rparr> Tick =
     Inr \<lparr>timeLeft = 1499, isRunning = False, mode = work,
          completedSessions = 0, totalSessions = 0\<rparr>"
proof -
  let ?s = "\<lparr>timeLeft = 1499, isRunning = False, mode = work,
            completedSessions = 0, totalSessions = 0\<rparr>"
  have r: "run Available [ToggleTimer, Tick, ToggleTimer] initialState = Inr ?s"
    by (simp add: run_Cons run_Nil initialState_def render_toggle tick_running_above_one
        durations)
  have reset: "step Available ?s ResetTimer =
      Inr \<lparr>timeLeft = 1500, isRunning = False, mode = work,
           completedSessions = 0, totalSessions = 0\<rparr>"
    by (simp add: render_reset durations)
  have tk: "step Available ?s Tick = Inr ?s"
    by (simp add: tick_stopped)
  from reachable_time_bounds [OF r] reset tk r show ?thesis
    by simp
qed

subsection \<open>Progress\<close>

text \<open>
  Claim C5, as stated, gives the progress value of work mode with no time left as 1.0.
  \<open>getProgress\<close> returns a percentage: there it is 100.
\<close>

theorem progress_fraction_counterexample:
  "getProgress
     \<lparr>timeLeft = 0, isRunning = False, mode = work,
      completedSessions = 0, totalSessions = 0\<rparr> = 100 \<and>
   (100::real) \<noteq> 1"
  by (simp add: getProgress_def durations)

text \<open>
  Claim C5, amended. For every state \<open>getProgress\<close> is the percentage
  \<open>100 * (duration - timeLeft) / duration\<close> for the duration of the current mode, so that
  the hundredth part of it, which the progress ring is drawn from, is the fraction
  \<open>(duration - timeLeft) / duration\<close>. In work mode the percentage is 0 with 1500 seconds
  left and 100 (the fraction 1.0) with none.
\<close>

theorem progress_percentage:
  "getProgress s =
     100 * ((of_int (duration (mode s)) - of_int (timeLeft s)) / of_int (duration (mode s))) \<and>
   getProgress s / 100 =
     (of_int (duration (mode s)) - of_int (timeLeft s)) / of_int (duration (mode s)) \<and>
   getProgress (s\<lparr>mode := work, timeLeft := 1500\<rparr>) = 0 \<and>
   getProgress (s\<lparr>mode := work, timeLeft := 0\<rparr>) = 100 \<and>
   getProgress (s\<lparr>mode := work, timeLeft := 0\<rparr>) / 100 = 1"
  by (cases "mode s") (simp_all add: getProgress_def durations)

subsection \<open>The controls\<close>

text \<open>
  Claim C6. From every state, switching to a mode stops the timer, makes that mode the
  current one and sets the time left to its duration (1500 for work, 300 for the short
  break, 900 for the long break); the session counters are unchanged.
\<close>

theorem switchMode_effect:
  "render (switchMode newMode) s =
     s\<lparr>isRunning := False, mode := newMode,
       timeLeft := (case newMode of work \<Rightarrow> 1500 | shortBreak \<Rightarrow> 300 | longBreak \<Rightarrow> 900)\<rparr> \<and>
   completedSessions (render (switchMode newMode) s) = completedSessions s \<and>
   totalSessions (render (switchMode newMode) s) = totalSessions s"
  by (simp add: render_switch duration_values)

text \<open>
  Claim C7. From every state, a reset stops the timer and sets the time left to the
  duration of the current mode; the mode and the session counters are unchanged. From
  the long break with 42 seconds left and running it gives 900 seconds, stopped.
\<close>

theorem resetTimer_effect:
  "render (resetTimer s) s =
     s\<lparr>isRunning := False,
       timeLeft := (case mode s of work \<Rightarrow> 1500 | shortBreak \<Rightarrow> 300 | longBreak \<Rightarrow> 900)\<rparr> \<and>
   mode (render (resetTimer s) s) = mode s \<and>
   completedSessions (render (resetTimer s) s) = completedSessions s \<and>
   totalSessions (render (resetTimer s) s) = totalSessions s \<and>
   render (resetTimer \<lparr>timeLeft = 42, isRunning = True, mode = longBreak,
                       completedSessions = c, totalSessions = t\<rparr>)
     \<lparr>timeLeft = 42, isRunning = True, mode = longBreak,
      completedSessions = c, totalSessions = t\<rparr> =
     \<lparr>timeLeft = 900, isRunning = False, mode = longBreak,
      completedSessions = c, totalSessions = t\<rparr>"
  by (simp add: render_reset duration_values)

text \<open>
  Claim C8. From every state, the toggle negates the running flag and leaves the time
  left, the mode and the session counters as they are.
\<close>

theorem toggleTimer_effect:
  "render (toggleTimer s) s = s\<lparr>isRunning := \<not> isRunning s\<rparr> \<and>
   isRunning (render (toggleTimer s) s) = (\<not> isRunning s) \<and>
   timeLeft (render (toggleTimer s) s) = timeLeft s \<and>
   mode (render (toggleTimer s) s) = mode s \<and>
   completedSessions (render (toggleTimer s) s) = completedSessions s \<and>
   totalSessions (render (toggleTimer s) s) = totalSessions s"
  by (simp add: render_toggle)

subsection \<open>The two session counters\<close>

text \<open>
  Claim C9. Both session counters are 0 in the initial state, and they are equal in
  every state reached from it. A step changes them only when it is a tick that completes
  a work interval, and then it sets both to the old count of completed sessions plus one.
\<close>

theorem session_counters_mirror:
  "completedSessions initialState = 0 \<and> totalSessions initialState = 0 \<and>
   (\<forall>es s. run audio es initialState = Inr s \<longrightarrow> totalSessions s = completedSessions s) \<and>
   (\<forall>s e s'. step audio s e = Inr s' \<longrightarrow>
      (if e = Tick \<and> isRunning s \<and> timeLeft s \<le> 1 \<and> mode s = work
       then completedSessions s' = completedSessions s + 1 \<and>
            totalSessions s' = completedSessions s + 1
       else completedSessions s' = completedSessions s \<and>
            totalSessions s' = totalSessions s))"
proof (intro conjI allI impI)
  show "completedSessions initialState = 0" and "totalSessions initialState = 0"
    by (simp_all add: initialState_def)
next
  fix es s
  assume r: "run audio es initialState = Inr s"
  have "counters_agree initialState"
    by (simp add: counters_agree_def initialState_def)
  from counters_agree_run [OF this r] show "totalSessions s = completedSessions s"
    by (simp add: counters_agree_def)
next
  fix s e s'
  assume "step audio s e = Inr s'"
  then show "if e = Tick \<and> isRunning s \<and> timeLeft s \<le> 1 \<and> mode s = work
       then completedSessions s' = completedSessions s + 1 \<and>
            totalSessions s' = completedSessions s + 1
       else completedSessions s' = completedSessions s \<and>
            totalSessions s' = totalSessions s"
    by (rule counters_step)
qed

theorem session_counters_mirror_witness:
  "run Available (ToggleTimer # replicate 1499 Tick @ [Tick]) initialState =
     Inr \<lparr>timeLeft = 300, isRunning = False, mode = shortBreak,
          completedSessions = 1, totalSessions = 1\<rparr> \<and>
   totalSessions \<lparr>timeLeft = 300, isRunning = False, mode = shortBreak,
      completedSessions = 1, totalSessions = 1\<rparr> =
   completedSessions \<lparr>timeLeft = 300, isRunning = False, mode = shortBreak,
      completedSessions = 1, totalSessions = 1\<rparr> \<and>
   step Available
     \<lparr>timeLeft = 1, isRunning = True, mode = work,
      completedSessions = 0, totalSessions = 0\<rparr> Tick =
     Inr \<lparr>timeLeft = 300, isRunning = False, mode = shortBreak,
          completedSessions = 1, totalSessions = 1\<rparr> \<and>
   step Available
     \<lparr>timeLeft = 1, isRunning = True, mode = shortBreak,
      completedSessions = 1, totalSessions = 1\<rparr> Tick =
     Inr \<lparr>timeLeft = 1500, isRunning = False, mode = work,
          completedSessions = 1, totalSessions = 1\<rparr>"
proof -
  let ?w = "\<lparr>timeLeft = 1, isRunning = True, mode = work,
            completedSessions = 0, totalSessions = 0\<rparr>"
  let ?b = "\<lparr>timeLeft = 1, isRunning = True, mode = shortBreak,
            completedSessions = 1, totalSessions = 1\<rparr>"
  let ?b' = "\<lparr>timeLeft = 300, isRunning = False, mode = shortBreak,
            completedSessions = 1, totalSessions = 1\<rparr>"
  let ?w' = "\<lparr>timeLeft = 1500, isRunning = False, mode = work,
            completedSessions = 1, totalSessions = 1\<rparr>"
  note m = session_counters_mirror [of Available]
  have w: "step Available ?w Tick = Inr ?b'" and b: "step Available ?b Tick = Inr ?w'"
    by (simp_all add: tick_completes)
  from m first_work_session have "totalSessions ?b' = completedSessions ?b'"
    by blast
  moreover from m w have "completedSessions ?b' = completedSessions ?w + 1"
    by (simp del: step.simps)
  ultimately show ?thesis
    using first_work_session w b by simp
qed

subsection \<open>A tick with no time left\<close>

text \<open>
  Claim C10. The updater completes the interval whenever the time left is at most one,
  not only when it is one: a tick in a running state with no time left calls the
  completion handler. With a working audio output it plays the notification sound once
  and ends in a different state: stopped, in the next mode, with that mode's full
  duration, and from work mode with the session count raised by one.
\<close>

theorem tick_at_zero_completes:
  assumes "isRunning s" and "timeLeft s = 0"
  shows "tickUpdater audio s (timeLeft s) =
           (case handleTimerComplete audio s of
              Inl e \<Rightarrow> Inl e
            | Inr fx \<Rightarrow> Inr (0, fx)) \<and>
         (\<exists>s'. tick Available s = Inr (s', 1) \<and> s' \<noteq> s \<and> \<not> isRunning s' \<and>
            mode s' \<noteq> mode s \<and> timeLeft s' = duration (mode s') \<and>
            (if mode s = work
             then completedSessions s' = completedSessions s + 1 \<and>
                  mode s' =
                    (if (completedSessions s + 1) mod 4 = 0 then longBreak else shortBreak)
             else completedSessions s' = completedSessions s \<and> mode s' = work))"
proof
  from assms(2) show "tickUpdater audio s (timeLeft s) =
      (case handleTimerComplete audio s of Inl e \<Rightarrow> Inl e | Inr fx \<Rightarrow> Inr (0, fx))"
    by (simp add: tickUpdater_def)
next
  define s' where "s' =
     (if mode s = work then
        s\<lparr>timeLeft := (if (completedSessions s + 1) mod 4 = 0 then 900 else 300),
          isRunning := False,
          mode := (if (completedSessions s + 1) mod 4 = 0 then longBreak else shortBreak),
          completedSessions := completedSessions s + 1,
          totalSessions := completedSessions s + 1\<rparr>
      else s\<lparr>timeLeft := 1500, isRunning := False, mode := work\<rparr>)"
  from assms have t: "tick Available s = Inr (s', 1)"
    by (simp add: tick_completes s'_def)
  have stopped: "\<not> isRunning s'"
    by (simp add: s'_def)
  with assms(1) have changed: "s' \<noteq> s"
    by auto
  have "mode s' \<noteq> mode s" and "timeLeft s' = duration (mode s')"
    by (simp_all add: s'_def durations)
  moreover have "if mode s = work
       then completedSessions s' = completedSessions s + 1 \<and>
            mode s' = (if (completedSessions s + 1) mod 4 = 0 then longBreak else shortBreak)
       else completedSessions s' = completedSessions s \<and> mode s' = work"
    by (simp add: s'_def)
  ultimately show "\<exists>s'. tick Available s = Inr (s', 1) \<and> s' \<noteq> s \<and> \<not> isRunning s' \<and>
      mode s' \<noteq> mode s \<and> timeLeft s' = duration (mode s') \<and>
      (if mode s = work
       then completedSessions s' = completedSessions s + 1 \<and>
            mode s' = (if (completedSessions s + 1) mod 4 = 0 then longBreak else shortBreak)
       else completedSessions s' = completedSessions s \<and> mode s' = work)"
    using t stopped changed by blast
qed

theorem tick_at_zero_completes_witness:
  "tick Available
     \<lparr>timeLeft = 0, isRunning = True, mode = work,
      completedSessions = 0, totalSessions = 0\<rparr> =
     Inr (\<lparr>timeLeft = 300, isRunning = False, mode = shortBreak,
           completedSessions = 1, totalSessions = 1\<rparr>, 1) \<and>
   tickUpdater Available
     \<lparr>timeLeft = 0, isRunning = True, mode = work,
      completedSessions = 0, totalSessions = 0\<rparr> 0 =
     Inr (0, \<lparr>queued = [SetIsRunning False, SetCompletedSessions 1, SetTotalSessions 1,
                        SetMode shortBreak, SetTimeLeft 300], sounds = 1\<rparr>)"
proof -
  let ?s = "\<lparr>timeLeft = 0, isRunning = True, mode = work,
            completedSessions = 0, totalSessions = 0\<rparr>"
  have "isRunning ?s" and "timeLeft ?s = 0"
    by simp_all
  from tick_at_zero_completes [OF this, of Available] show ?thesis
    by (simp add: handler_available tick_completes)
qed

end
